theory Spec2Isabelle
  imports Main
begin

section \<open>The table document fragment\<close>

text \<open>
  The table block's attributes, as \<open>TableEdit\<close> destructures them: a layout flag, a caption and
  the three sections \<open>head\<close>, \<open>body\<close>, \<open>foot\<close>. A section is an array of rows, a row is an
  object \<open>{ cells }\<close>, and a cell carries \<open>content\<close>, \<open>tag\<close>, \<open>scope\<close> and \<open>align\<close>
  (the render loop reads exactly these four). Rich-text content is a string here; \<open>scope\<close>
  and \<open>align\<close> may be undefined, which is \<open>None\<close>.
\<close>

datatype cell_tag = Td | Th

record cell =
  content :: string
  tag :: cell_tag
  scope :: "string option"
  align :: "string option"

record row =
  cells :: "cell list"

type_synonym table_section = "row list"

datatype section_name = Head | Body | Foot

record table_attributes =
  hasFixedLayout :: bool
  caption :: string
  head :: table_section
  body :: table_section
  foot :: table_section

text \<open>\<open>attributes[ name ]\<close> for the three section names.\<close>

fun section_of :: "table_attributes \<Rightarrow> section_name \<Rightarrow> table_section" where
  "section_of a Head = head a"
| "section_of a Body = body a"
| "section_of a Foot = foot a"

subsection \<open>Partial attribute objects and \<open>setAttributes\<close>\<close>

text \<open>
  \<open>setAttributes\<close> receives an object holding only the attributes to replace
  (\<open>setAttributes( { hasFixedLayout: ! hasFixedLayout } )\<close> keeps the table). Such an object is
  a record of optional fields; the host merges it into the current attributes.
\<close>

record attributes_patch =
  new_hasFixedLayout :: "bool option"
  new_caption :: "string option"
  new_head :: "table_section option"
  new_body :: "table_section option"
  new_foot :: "table_section option"

definition empty_patch :: attributes_patch where
  "empty_patch = \<lparr>new_hasFixedLayout = None, new_caption = None,
     new_head = None, new_body = None, new_foot = None\<rparr>"

text \<open>The object \<open>{ [ sectionName ]: rows }\<close>.\<close>

fun section_patch :: "section_name \<Rightarrow> table_section \<Rightarrow> attributes_patch" where
  "section_patch Head rows = empty_patch\<lparr>new_head := Some rows\<rparr>"
| "section_patch Body rows = empty_patch\<lparr>new_body := Some rows\<rparr>"
| "section_patch Foot rows = empty_patch\<lparr>new_foot := Some rows\<rparr>"

definition merge_attributes :: "table_attributes \<Rightarrow> attributes_patch \<Rightarrow> table_attributes" where
  "merge_attributes a p =
     \<lparr>hasFixedLayout = (case new_hasFixedLayout p of None \<Rightarrow> hasFixedLayout a | Some v \<Rightarrow> v),
      caption = (case new_caption p of None \<Rightarrow> caption a | Some v \<Rightarrow> v),
      head = (case new_head p of None \<Rightarrow> head a | Some v \<Rightarrow> v),
      body = (case new_body p of None \<Rightarrow> body a | Some v \<Rightarrow> v),
      foot = (case new_foot p of None \<Rightarrow> foot a | Some v \<Rightarrow> v)\<rparr>"

subsection \<open>Cell selection\<close>

text \<open>
  The selection objects the component builds: \<open>{ sectionName, rowIndex, columnIndex, type: 'cell' }\<close>
  on focus and after a row insertion, \<open>{ rowIndex, columnIndex, type: 'cell' }\<close> after a column
  insertion, and \<open>{ type: 'column', columnIndex }\<close> for column alignment. An absent key is
  \<open>None\<close>. Indices are array indices, so natural numbers.
\<close>

datatype selection_type = Cell | Column

record selection =
  type :: selection_type
  sectionName :: "section_name option"
  rowIndex :: "nat option"
  columnIndex :: nat

subsection \<open>Strings and numbers of the language\<close>

text \<open>
  The strings \<open>parseInt\<close> reads are sequences of UTF-16 code units, and it reads them unit
  by unit; the count inputs are kept in this form.
\<close>

type_synonym js_string = "nat list"

text \<open>The code units of an ASCII text.\<close>

definition utf16 :: "string \<Rightarrow> js_string" where
  "utf16 s = map of_char s"

text \<open>
  The values \<open>parseInt\<close> can return: \<open>NaN\<close>, a finite double of integral value, or an
  infinity. \<open>Number n\<close> is the double whose value is the integer \<open>n\<close>, which is one that a
  double can hold; both zeros are \<open>Number 0\<close> (they are equally falsy).
\<close>

datatype js_number = NaN | Number int | PosInfinity | NegInfinity

subsection \<open>The helpers imported from \<open>./state\<close>\<close>

text \<open>
  \<open>TableEdit\<close> imports its transformation helpers from \<open>./state\<close>. Each handler below takes
  the helper it calls as its first argument, under the helper's name, so that what is proved
  of a handler for an arbitrary argument holds whatever the helper computes. These are the
  helpers' types: each returns the object that is handed to \<open>setAttributes\<close>.
\<close>

type_synonym createTable_helper = "js_number \<Rightarrow> js_number \<Rightarrow> attributes_patch"
type_synonym updateSelectedCell_helper =
  "table_attributes \<Rightarrow> selection \<Rightarrow> (cell \<Rightarrow> cell) \<Rightarrow> attributes_patch"
type_synonym row_helper =
  "table_attributes \<Rightarrow> section_name option \<Rightarrow> nat option \<Rightarrow> attributes_patch"
type_synonym insertColumn_helper = "table_attributes \<Rightarrow> nat \<Rightarrow> attributes_patch"
type_synonym deleteColumn_helper =
  "table_attributes \<Rightarrow> section_name option \<Rightarrow> nat \<Rightarrow> attributes_patch"
type_synonym toggleSection_helper = "table_attributes \<Rightarrow> section_name \<Rightarrow> attributes_patch"

section \<open>\<open>TableEdit\<close>\<close>

text \<open>
  The component's props and local state that the handlers read and write: the \<open>attributes\<close>
  prop, the three \<open>useState\<close> cells, and the calls made to the \<open>setAttributes\<close> prop so far.
  The count inputs hold what the text controls report, a string; the initial number \<open>2\<close> is
  the string \<open>2\<close> once \<open>parseInt\<close> has converted its argument.
\<close>

record edit_state =
  attributes :: table_attributes
  initialRowCount :: js_string
  initialColumnCount :: js_string
  selectedCell :: "selection option"
  setAttributes_calls :: "attributes_patch list"

definition setAttributes :: "attributes_patch \<Rightarrow> edit_state \<Rightarrow> edit_state" where
  "setAttributes p st =
     st\<lparr>attributes := merge_attributes (attributes st) p,
        setAttributes_calls := setAttributes_calls st @ [p]\<rparr>"

definition setSelectedCell :: "selection option \<Rightarrow> edit_state \<Rightarrow> edit_state" where
  "setSelectedCell sel st = st\<lparr>selectedCell := sel\<rparr>"

subsection \<open>\<open>parseInt( string, 10 )\<close>\<close>

text \<open>
  The Number value for an integer: the integer itself up to 2^53 in absolute value, beyond
  that the nearest integer with a significand of 53 bits, a tie going to the even
  significand, and an infinity from 2^1024 on.
\<close>

fun bit_length :: "nat \<Rightarrow> nat" where
  "bit_length n = (if n = 0 then 0 else Suc (bit_length (n div 2)))"

definition to_number :: "int \<Rightarrow> js_number" where
  "to_number n =
     (let m = nat \<bar>n\<bar>
      in if m \<le> 2 ^ 53 then Number n
         else let e = bit_length m - 53;
                  q = m div 2 ^ e;
                  r = m mod 2 ^ e;
                  q' = (if 2 ^ e < 2 * r \<or> (2 * r = 2 ^ e \<and> odd q) then q + 1 else q);
                  v = q' * 2 ^ e
              in if 2 ^ 1024 \<le> v then (if n < 0 then NegInfinity else PosInfinity)
                 else Number (if n < 0 then - int v else int v))"

text \<open>
  The language's \<open>parseInt\<close> with radix 10, on the code units of its argument: leading white
  space is skipped (every \<open>StrWhiteSpaceChar\<close>: the white space and the line terminators of
  the language, among them the no-break space and the byte order mark), one sign is read,
  then the longest run of decimal digits. With no digit the result is \<open>NaN\<close>; otherwise it is
  the Number value for the signed integer the digits denote. The language lets an
  implementation read the digits after the twentieth significant one as zeros; the digits
  are taken as they are here.
\<close>

definition is_whitespace :: "nat \<Rightarrow> bool" where
  "is_whitespace c =
     (c \<in> set [0x0009, 0x000A, 0x000B, 0x000C, 0x000D, 0x0020, 0x00A0, 0x1680, 0x2028, 0x2029,
               0x202F, 0x205F, 0x3000, 0xFEFF]
      \<or> (0x2000 \<le> c \<and> c \<le> 0x200A))"

definition is_digit :: "nat \<Rightarrow> bool" where
  "is_digit c = (48 \<le> c \<and> c \<le> 57)"

definition digit_value :: "nat \<Rightarrow> int" where
  "digit_value c = int c - 48"

definition decimal_value :: "js_string \<Rightarrow> int" where
  "decimal_value ds = foldl (\<lambda>acc c. acc * 10 + digit_value c) 0 ds"

definition parseInt :: "js_string \<Rightarrow> js_number" where
  "parseInt s =
     (let S = dropWhile is_whitespace s;
          sign = (case S of c # _ \<Rightarrow> if c = 0x2D then - 1 else 1 | [] \<Rightarrow> 1);
          S' = (case S of c # cs \<Rightarrow> if c = 0x2B \<or> c = 0x2D then cs else S | [] \<Rightarrow> S);
          Z = takeWhile is_digit S'
      in if Z = [] then NaN else to_number (sign * decimal_value Z))"

text \<open>
  \<open>parseInt( count, 10 ) || 2\<close>: the right operand is taken when the left one is falsy, and
  of the values \<open>parseInt\<close> returns the falsy ones are \<open>NaN\<close> and the zeros.
\<close>

definition parseInt_or_2 :: "js_string \<Rightarrow> js_number" where
  "parseInt_or_2 s =
     (let n = parseInt s in if n = NaN \<or> n = Number 0 then Number 2 else n)"

subsection \<open>Event handlers\<close>

text \<open>\<open>onCreateTable\<close>; \<open>event.preventDefault()\<close> touches the event only.\<close>

definition onCreateTable :: "createTable_helper \<Rightarrow> edit_state \<Rightarrow> edit_state" where
  "onCreateTable createTable st =
     setAttributes
       (createTable (parseInt_or_2 (initialRowCount st)) (parseInt_or_2 (initialColumnCount st)))
       st"

definition onChangeFixedLayout :: "edit_state \<Rightarrow> edit_state" where
  "onChangeFixedLayout st =
     setAttributes (empty_patch\<lparr>new_hasFixedLayout := Some (\<not> hasFixedLayout (attributes st))\<rparr>) st"

definition onChange :: "updateSelectedCell_helper \<Rightarrow> string \<Rightarrow> edit_state \<Rightarrow> edit_state" where
  "onChange updateSelectedCell new_content st =
     (case selectedCell st of
        None \<Rightarrow> st
      | Some sel \<Rightarrow>
          setAttributes
            (updateSelectedCell (attributes st) sel
               (\<lambda>cellAttributes. cellAttributes\<lparr>content := new_content\<rparr>))
            st)"

text \<open>
  \<open>onChangeColumnAlignment\<close>. The alignment toolbar reports the chosen alignment, or undefined
  when the active one is switched off, so the argument is optional.
\<close>

definition onChangeColumnAlignment ::
  "updateSelectedCell_helper \<Rightarrow> string option \<Rightarrow> edit_state \<Rightarrow> edit_state" where
  "onChangeColumnAlignment updateSelectedCell new_align st =
     (case selectedCell st of
        None \<Rightarrow> st
      | Some sel \<Rightarrow>
          let columnSelection =
                \<lparr>type = Column, sectionName = None, rowIndex = None,
                 columnIndex = columnIndex sel\<rparr>;
              newAttributes =
                updateSelectedCell (attributes st) columnSelection
                  (\<lambda>cellAttributes. cellAttributes\<lparr>align := new_align\<rparr>)
          in setAttributes newAttributes st)"

definition onToggleHeaderSection :: "toggleSection_helper \<Rightarrow> edit_state \<Rightarrow> edit_state" where
  "onToggleHeaderSection toggleSection st = setAttributes (toggleSection (attributes st) Head) st"

definition onToggleFooterSection :: "toggleSection_helper \<Rightarrow> edit_state \<Rightarrow> edit_state" where
  "onToggleFooterSection toggleSection st = setAttributes (toggleSection (attributes st) Foot) st"

text \<open>
  \<open>onInsertRow\<close>. With \<open>rowIndex\<close> undefined the sum \<open>rowIndex + delta\<close> is \<open>NaN\<close>, no row
  index at all, and stays \<open>None\<close>.
\<close>

definition onInsertRow :: "row_helper \<Rightarrow> nat \<Rightarrow> edit_state \<Rightarrow> edit_state" where
  "onInsertRow insertRow delta st =
     (case selectedCell st of
        None \<Rightarrow> st
      | Some sel \<Rightarrow>
          let newRowIndex = map_option (\<lambda>r. r + delta) (rowIndex sel)
          in setSelectedCell
               (Some \<lparr>type = Cell, sectionName = sectionName sel, rowIndex = newRowIndex,
                      columnIndex = 0\<rparr>)
               (setAttributes (insertRow (attributes st) (sectionName sel) newRowIndex) st))"

definition onInsertRowBefore :: "row_helper \<Rightarrow> edit_state \<Rightarrow> edit_state" where
  "onInsertRowBefore insertRow = onInsertRow insertRow 0"

definition onInsertRowAfter :: "row_helper \<Rightarrow> edit_state \<Rightarrow> edit_state" where
  "onInsertRowAfter insertRow = onInsertRow insertRow 1"

definition onDeleteRow :: "row_helper \<Rightarrow> edit_state \<Rightarrow> edit_state" where
  "onDeleteRow deleteRow st =
     (case selectedCell st of
        None \<Rightarrow> st
      | Some sel \<Rightarrow>
          setAttributes (deleteRow (attributes st) (sectionName sel) (rowIndex sel))
            (setSelectedCell None st))"

definition onInsertColumn :: "insertColumn_helper \<Rightarrow> nat \<Rightarrow> edit_state \<Rightarrow> edit_state" where
  "onInsertColumn insertColumn delta st =
     (case selectedCell st of
        None \<Rightarrow> st
      | Some sel \<Rightarrow>
          let newColumnIndex = columnIndex sel + delta
          in setSelectedCell
               (Some \<lparr>type = Cell, sectionName = None, rowIndex = Some 0,
                      columnIndex = newColumnIndex\<rparr>)
               (setAttributes (insertColumn (attributes st) newColumnIndex) st))"

definition onInsertColumnBefore :: "insertColumn_helper \<Rightarrow> edit_state \<Rightarrow> edit_state" where
  "onInsertColumnBefore insertColumn = onInsertColumn insertColumn 0"

definition onInsertColumnAfter :: "insertColumn_helper \<Rightarrow> edit_state \<Rightarrow> edit_state" where
  "onInsertColumnAfter insertColumn = onInsertColumn insertColumn 1"

definition onDeleteColumn :: "deleteColumn_helper \<Rightarrow> edit_state \<Rightarrow> edit_state" where
  "onDeleteColumn deleteColumn st =
     (case selectedCell st of
        None \<Rightarrow> st
      | Some sel \<Rightarrow>
          setAttributes (deleteColumn (attributes st) (sectionName sel) (columnIndex sel))
            (setSelectedCell None st))"

subsection \<open>What the component renders\<close>

text \<open>
  Of the rendered tree, the part the branch on \<open>isEmpty\<close> decides: either the placeholder with
  the creation form (its two count inputs), or the figure with one \<open>thead\<close>/\<open>tbody\<close>/\<open>tfoot\<close>
  per section that is not empty (\<open>null\<close> otherwise) and the caption.
\<close>

datatype rendered =
  Placeholder js_string js_string
| Figure "(section_name \<times> table_section) option list" string

definition TableEdit :: "(table_section \<Rightarrow> bool) \<Rightarrow> edit_state \<Rightarrow> rendered" where
  "TableEdit isEmptyTableSection st =
     (let a = attributes st;
          isEmpty = (isEmptyTableSection (head a) \<and> isEmptyTableSection (body a)
                     \<and> isEmptyTableSection (foot a))
      in if isEmpty then Placeholder (initialColumnCount st) (initialRowCount st)
         else Figure
                (map (\<lambda>name. let rows = section_of a name
                              in if isEmptyTableSection rows then None else Some (name, rows))
                   [Head, Body, Foot])
                (caption a))"

section \<open>The helpers of \<open>./state\<close>, after the specification\<close>

text \<open>
  The module \<open>./state\<close> is not among the sources. The specification describes its helpers as
  "small pure functions for array surgery on a table's row/column lists" producing
  "replacement copies", and names what each one does; the definitions of this section follow
  those words.
\<close>

text \<open>
  Modelled from the spec: \<open>isEmptyTableSection\<close> of \<open>./state\<close>, which is missing from the
  sources. "Section is considered empty when its row sequence is empty or every row has no
  cells."
\<close>

definition isEmptyTableSection_spec :: "table_section \<Rightarrow> bool" where
  "isEmptyTableSection_spec rows = (rows = [] \<or> list_all (\<lambda>r. cells r = []) rows)"



text \<open>
  Modelled from the spec: the array surgery itself, missing with \<open>./state\<close>. Inserting at an
  index puts the new element before the element now at that index (at the end when the index
  is past it); deleting at an index drops that element (none when the index is past the end).
\<close>

definition insert_at :: "nat \<Rightarrow> 'a \<Rightarrow> 'a list \<Rightarrow> 'a list" where
  "insert_at i x xs = take i xs @ x # drop i xs"

definition remove_at :: "nat \<Rightarrow> 'a list \<Rightarrow> 'a list" where
  "remove_at i xs = take i xs @ drop (Suc i) xs"

text \<open>
  Modelled from the spec: the blank cell that the column insertion of \<open>./state\<close> adds, and
  a row of blank cells. A blank cell has empty content, no scope and no alignment; its tag
  kind is "header" in the head section and "data" elsewhere.
\<close>

definition blank_cell :: "section_name \<Rightarrow> cell" where
  "blank_cell s = \<lparr>content = [], tag = (if s = Head then Th else Td), scope = None, align = None\<rparr>"

definition blank_row :: "section_name \<Rightarrow> nat \<Rightarrow> row" where
  "blank_row s n = \<lparr>cells = replicate n (blank_cell s)\<rparr>"

text \<open>
  Modelled from the spec: \<open>insertRow\<close> of \<open>./state\<close>, which is missing from the sources.
  "Insert a blank row at index i", in the section named; the other sections are not part of
  the replacement. The spec does not say how many cells the blank row has nor what they
  carry, so the row is an argument: \<open>new_row a s\<close> is the row the helper makes for section
  \<open>s\<close> of the table \<open>a\<close>. Without a section name or a row index there is no place to insert
  at, and nothing is replaced.
\<close>

fun insertRow_spec :: "(table_attributes \<Rightarrow> section_name \<Rightarrow> row) \<Rightarrow> row_helper" where
  "insertRow_spec new_row a (Some s) (Some i) =
     section_patch s (insert_at i (new_row a s) (section_of a s))"
| "insertRow_spec new_row a _ _ = empty_patch"

text \<open>
  Modelled from the spec: one reading of the "blank row" of \<open>insertRow\<close>, for evaluating it:
  blank cells, as many as the first row of the table has (head, body, foot in this order),
  none in a table without rows. The spec gives no cell count; this is a row the helper may
  make, not the one it is known to make.
\<close>

definition first_row_width :: "table_attributes \<Rightarrow> nat" where
  "first_row_width a =
     (case head a @ body a @ foot a of
        [] \<Rightarrow> 0
      | r # _ \<Rightarrow> length (cells r))"

definition blank_like_first_row :: "table_attributes \<Rightarrow> section_name \<Rightarrow> row" where
  "blank_like_first_row a s = blank_row s (first_row_width a)"

text \<open>
  Modelled from the spec: \<open>deleteRow\<close> of \<open>./state\<close>, which is missing from the sources: the
  row at the index is dropped from the section named.
\<close>

fun deleteRow_spec :: row_helper where
  "deleteRow_spec a (Some s) (Some i) = section_patch s (remove_at i (section_of a s))"
| "deleteRow_spec a _ _ = empty_patch"

text \<open>
  Modelled from the spec: \<open>insertColumn\<close> of \<open>./state\<close>, which is missing from the sources. It
  is called with a column index and no section name, so the column runs through the table: a
  blank cell is inserted at the index into every row of every section.
\<close>

definition insert_cell :: "section_name \<Rightarrow> nat \<Rightarrow> row \<Rightarrow> row" where
  "insert_cell s j r = r\<lparr>cells := insert_at j (blank_cell s) (cells r)\<rparr>"

definition insertColumn_spec :: insertColumn_helper where
  "insertColumn_spec a j =
     empty_patch\<lparr>new_head := Some (map (insert_cell Head j) (head a)),
                 new_body := Some (map (insert_cell Body j) (body a)),
                 new_foot := Some (map (insert_cell Foot j) (foot a))\<rparr>"

text \<open>
  Modelled from the spec: \<open>deleteColumn\<close> of \<open>./state\<close>, which is missing from the sources.
  As for the insertion, the column runs through the table: the cell at the index is dropped
  from every row of every section. The rows stay, with no cells once their last cell is gone
  (the case "every row has no cells" of an empty section).
\<close>

definition delete_cell :: "nat \<Rightarrow> row \<Rightarrow> row" where
  "delete_cell j r = r\<lparr>cells := remove_at j (cells r)\<rparr>"

definition deleteColumn_spec :: deleteColumn_helper where
  "deleteColumn_spec a sectionName' j =
     empty_patch\<lparr>new_head := Some (map (delete_cell j) (head a)),
                 new_body := Some (map (delete_cell j) (body a)),
                 new_foot := Some (map (delete_cell j) (foot a))\<rparr>"

text \<open>
  Modelled from the spec: \<open>updateSelectedCell\<close> of \<open>./state\<close>, which is missing from the
  sources. The update function is applied to the selected cells and to no other: a selection
  of type \<open>column\<close> selects the cells with its column index in all rows of all sections
  ("alignment set on a column applies uniformly to all its cells"), a selection of type
  \<open>cell\<close> the one cell at its section, row and column.
\<close>

definition isCellSelected :: "section_name \<Rightarrow> nat \<Rightarrow> nat \<Rightarrow> selection \<Rightarrow> bool" where
  "isCellSelected s i j sel =
     (case type sel of
        Column \<Rightarrow> j = columnIndex sel
      | Cell \<Rightarrow> sectionName sel = Some s \<and> rowIndex sel = Some i \<and> j = columnIndex sel)"

definition update_cells :: "(nat \<Rightarrow> bool) \<Rightarrow> (cell \<Rightarrow> cell) \<Rightarrow> cell list \<Rightarrow> cell list" where
  "update_cells selected updateCell cs =
     map (\<lambda>(j, c). if selected j then updateCell c else c) (enumerate 0 cs)"

definition update_section ::
  "section_name \<Rightarrow> selection \<Rightarrow> (cell \<Rightarrow> cell) \<Rightarrow> table_section \<Rightarrow> table_section" where
  "update_section s sel updateCell rows =
     map (\<lambda>(i, r). r\<lparr>cells := update_cells (\<lambda>j. isCellSelected s i j sel) updateCell (cells r)\<rparr>)
       (enumerate 0 rows)"

definition updateSelectedCell_spec :: updateSelectedCell_helper where
  "updateSelectedCell_spec a sel updateCell =
     empty_patch\<lparr>new_head := Some (update_section Head sel updateCell (head a)),
                 new_body := Some (update_section Body sel updateCell (body a)),
                 new_foot := Some (update_section Foot sel updateCell (foot a))\<rparr>"

text \<open>
  Modelled from the spec: \<open>toggleSection\<close> of \<open>./state\<close>, which is missing from the sources.
  The spec has "toggle a section", and its callers "add or remove" the section: a section
  that is not empty (in the sense of \<open>isEmptyTableSection\<close>) is removed, it becomes the empty
  row sequence; an empty section is added by inserting a row at index 0. The row it adds is
  an argument, as for \<open>insertRow\<close>.
\<close>

definition toggleSection_spec ::
  "(table_attributes \<Rightarrow> section_name \<Rightarrow> row) \<Rightarrow> toggleSection_helper" where
  "toggleSection_spec new_row a s =
     (if isEmptyTableSection_spec (section_of a s)
      then insertRow_spec new_row a (Some s) (Some 0)
      else section_patch s [])"

section \<open>The edit-site header\<close>

text \<open>
  What \<open>Header\<close> reads for the block toolbar: the viewport match \<open>useViewportMatch( 'medium' )\<close>,
  the preview device type and whether the feature \<open>fixedToolbar\<close> is active.
\<close>

record header_inputs =
  isLargeViewport :: bool
  deviceType :: string
  hasFixedToolbar :: bool

definition displayBlockToolbar :: "header_inputs \<Rightarrow> bool" where
  "displayBlockToolbar h =
     (\<not> isLargeViewport h \<or> deviceType h \<noteq> ''Desktop'' \<or> hasFixedToolbar h)"

text \<open>
  The children of \<open>edit-site-header__toolbar\<close> in the order of the source;
  \<open>{ displayBlockToolbar && ( ... ) }\<close> renders its element or nothing.
\<close>

datatype toolbar_element =
  InserterToggle | ToolSelector | UndoButton | RedoButton | BlockNavigationDropdown
| BlockToolbar | PageSwitcher

definition Header :: "header_inputs \<Rightarrow> toolbar_element list" where
  "Header h =
     [InserterToggle, ToolSelector, UndoButton, RedoButton, BlockNavigationDropdown]
     @ (if displayBlockToolbar h then [BlockToolbar] else [])
     @ [PageSwitcher]"

section \<open>The link picker screen\<close>

text \<open>
  The host objects \<open>LinkPickerScreen\<close> drives: the navigation (its calls are logged), the
  interaction manager (the callbacks handed to \<open>runAfterInteractions\<close> wait until the
  interactions are over) and the bottom sheet's flag behind \<open>setIsChildrenScrollable\<close>.
\<close>

record link =
  url :: string
  title :: string

record route_params =
  inputValue :: string
  text_param :: string

datatype navigation_call = Navigate string route_params | GoBack

datatype callback = SetIsChildrenScrollable bool

record screen_state =
  navigation_calls :: "navigation_call list"
  after_interactions :: "callback list"
  isChildrenScrollable :: bool

definition navigate :: "string \<Rightarrow> route_params \<Rightarrow> screen_state \<Rightarrow> screen_state" where
  "navigate name params st = st\<lparr>navigation_calls := navigation_calls st @ [Navigate name params]\<rparr>"

definition goBack :: "screen_state \<Rightarrow> screen_state" where
  "goBack st = st\<lparr>navigation_calls := navigation_calls st @ [GoBack]\<rparr>"

definition runAfterInteractions :: "callback \<Rightarrow> screen_state \<Rightarrow> screen_state" where
  "runAfterInteractions cb st = st\<lparr>after_interactions := after_interactions st @ [cb]\<rparr>"

fun run_callback :: "callback \<Rightarrow> screen_state \<Rightarrow> screen_state" where
  "run_callback (SetIsChildrenScrollable b) st = st\<lparr>isChildrenScrollable := b\<rparr>"

text \<open>The interactions are over: the waiting callbacks run in the order they were handed in.\<close>

definition interactions_over :: "screen_state \<Rightarrow> screen_state" where
  "interactions_over st = fold run_callback (after_interactions st) (st\<lparr>after_interactions := []\<rparr>)"

text \<open>The key \<open>text\<close> of the parameters is \<open>text_param\<close>.\<close>

definition onLinkPicked :: "string \<Rightarrow> link \<Rightarrow> screen_state \<Rightarrow> screen_state" where
  "onLinkPicked returnScreenName picked st =
     runAfterInteractions (SetIsChildrenScrollable False)
       (navigate returnScreenName \<lparr>inputValue = url picked, text_param = title picked\<rparr> st)"

definition onCancel :: "screen_state \<Rightarrow> screen_state" where
  "onCancel st = runAfterInteractions (SetIsChildrenScrollable False) (goBack st)"

section \<open>Example inputs\<close>

text \<open>A small table and component states around it, for evaluating the definitions.\<close>

definition data_cell :: "string \<Rightarrow> cell" where
  "data_cell s = \<lparr>content = s, tag = Td, scope = None, align = None\<rparr>"

definition header_cell :: "string \<Rightarrow> cell" where
  "header_cell s = \<lparr>content = s, tag = Th, scope = None, align = None\<rparr>"

definition example_table :: table_attributes where
  "example_table =
     \<lparr>hasFixedLayout = False, caption = ''Prices'',
      head = [\<lparr>cells = [header_cell ''Item'', header_cell ''Price'']\<rparr>],
      body = [\<lparr>cells = [data_cell ''Tea'', data_cell ''2'']\<rparr>,
              \<lparr>cells = [data_cell ''Cake'', data_cell ''3'']\<rparr>],
      foot = []\<rparr>"

definition example_state :: "selection option \<Rightarrow> edit_state" where
  "example_state sel =
     \<lparr>attributes = example_table, initialRowCount = utf16 ''2'', initialColumnCount = utf16 ''2'',
      selectedCell = sel, setAttributes_calls = []\<rparr>"

definition cell_selection :: "section_name \<Rightarrow> nat \<Rightarrow> nat \<Rightarrow> selection" where
  "cell_selection s i j = \<lparr>type = Cell, sectionName = Some s, rowIndex = Some i, columnIndex = j\<rparr>"

definition example_screen :: screen_state where
  "example_screen = \<lparr>navigation_calls = [], after_interactions = [], isChildrenScrollable = True\<rparr>"

definition state_of :: "table_attributes \<Rightarrow> selection option \<Rightarrow> edit_state" where
  "state_of a sel =
     \<lparr>attributes = a, initialRowCount = utf16 ''2'', initialColumnCount = utf16 ''2'',
      selectedCell = sel, setAttributes_calls = []\<rparr>"

text \<open>A table of one column without head and foot, and a table whose only row has no cells.\<close>

definition one_column_table :: table_attributes where
  "one_column_table =
     \<lparr>hasFixedLayout = False, caption = [],
      head = [],
      body = [\<lparr>cells = [data_cell ''Tea'']\<rparr>, \<lparr>cells = [data_cell ''Cake'']\<rparr>],
      foot = []\<rparr>"

definition cell_less_table :: table_attributes where
  "cell_less_table =
     \<lparr>hasFixedLayout = False, caption = [], head = [], body = [\<lparr>cells = []\<rparr>], foot = []\<rparr>"


text \<open>A stand-in for \<open>createTable\<close>: a body of blank rows, as many and as wide as asked for.\<close>

definition count_of :: "js_number \<Rightarrow> nat" where
  "count_of n = (case n of Number k \<Rightarrow> nat k | _ \<Rightarrow> 0)"

definition example_createTable :: createTable_helper where
  "example_createTable row_count column_count =
     section_patch Body (replicate (count_of row_count) (blank_row Body (count_of column_count)))"

section \<open>Handlers without a selection\<close>

text \<open>
  Claim C2. Each of the six mutating cell actions of \<open>TableEdit\<close> (\<open>onChange\<close>,
  \<open>onChangeColumnAlignment\<close>, \<open>onInsertRow\<close>, \<open>onDeleteRow\<close>, \<open>onInsertColumn\<close>,
  \<open>onDeleteColumn\<close>) returns at once when no cell is selected: the component state after the
  action is the state before it, so the attributes are unchanged and the list of
  \<open>setAttributes\<close> calls has not grown. This holds for whatever helpers \<open>./state\<close> provides.
\<close>

theorem no_selection_no_op:
  "selectedCell st = None \<Longrightarrow>
     onChange updateSelectedCell new_content st = st
   \<and> onChangeColumnAlignment updateSelectedCell new_align st = st
   \<and> onInsertRow insertRow delta st = st
   \<and> onDeleteRow deleteRow st = st
   \<and> onInsertColumn insertColumn delta st = st
   \<and> onDeleteColumn deleteColumn st = st"
  by (simp add: onChange_def onChangeColumnAlignment_def onInsertRow_def onDeleteRow_def
      onInsertColumn_def onDeleteColumn_def)

theorem no_selection_no_op_witness:
  "selectedCell (example_state None) = None
   \<and> onChange updateSelectedCell_spec ''Milk'' (example_state None) = example_state None
   \<and> onChangeColumnAlignment updateSelectedCell_spec (Some ''left'') (example_state None)
       = example_state None
   \<and> onInsertRow (insertRow_spec blank_like_first_row) 1 (example_state None) = example_state None
   \<and> onDeleteRow deleteRow_spec (example_state None) = example_state None
   \<and> onInsertColumn insertColumn_spec 1 (example_state None) = example_state None
   \<and> onDeleteColumn deleteColumn_spec (example_state None) = example_state None
   \<and> setAttributes_calls (onDeleteRow deleteRow_spec (example_state None)) = []"
proof -
  have h: "selectedCell (example_state None) = None"
    by (simp add: example_state_def)
  show ?thesis
    using h no_selection_no_op [OF h, of updateSelectedCell_spec "''Milk''" "Some ''left''"
        "insertRow_spec blank_like_first_row" 1 deleteRow_spec insertColumn_spec
        deleteColumn_spec]
    by (simp add: example_state_def)
qed

section \<open>The selection after an insertion\<close>

text \<open>
  Claim C9. With a cell selected at row index \<open>r\<close>, \<open>onInsertRow delta\<close> leaves selected the
  first cell of the new row: the selection's own section name, row index \<open>r + delta\<close>, column
  index 0, type \<open>cell\<close>. With a cell selected at column index \<open>c\<close>, \<open>onInsertColumn delta\<close>
  leaves selected row index 0, column index \<open>c + delta\<close>, type \<open>cell\<close>, and records no
  section name. Neither depends on what the insertion helper returns.
\<close>

theorem insertion_selects_new_cell:
  "selectedCell st = Some sel \<Longrightarrow> rowIndex sel = Some r \<Longrightarrow>
     selectedCell (onInsertRow insertRow delta st) =
       Some \<lparr>type = Cell, sectionName = sectionName sel, rowIndex = Some (r + delta),
             columnIndex = 0\<rparr>
   \<and> selectedCell (onInsertColumn insertColumn delta st) =
       Some \<lparr>type = Cell, sectionName = None, rowIndex = Some 0,
             columnIndex = columnIndex sel + delta\<rparr>"
  by (simp add: onInsertRow_def onInsertColumn_def setSelectedCell_def setAttributes_def Let_def)

theorem insertion_selects_new_cell_witness:
  "selectedCell (example_state (Some (cell_selection Body 1 1))) = Some (cell_selection Body 1 1)
   \<and> rowIndex (cell_selection Body 1 1) = Some 1
   \<and> selectedCell (onInsertRow (insertRow_spec blank_like_first_row) 1 (example_state (Some (cell_selection Body 1 1)))) =
       Some \<lparr>type = Cell, sectionName = Some Body, rowIndex = Some 2, columnIndex = 0\<rparr>
   \<and> selectedCell (onInsertColumn insertColumn_spec 1 (example_state (Some (cell_selection Body 1 1)))) =
       Some \<lparr>type = Cell, sectionName = None, rowIndex = Some 0, columnIndex = 2\<rparr>"
proof -
  have h1: "selectedCell (example_state (Some (cell_selection Body 1 1))) = Some (cell_selection Body 1 1)"
    by (simp add: example_state_def)
  have h2: "rowIndex (cell_selection Body 1 1) = Some 1"
    by (simp add: cell_selection_def)
  show ?thesis
    using h1 h2 insertion_selects_new_cell [OF h1 h2, of "insertRow_spec blank_like_first_row" 1
        insertColumn_spec]
    by (simp add: cell_selection_def)
qed

section \<open>The block toolbar of the header\<close>

text \<open>
  Claim C10. The header's toolbar holds the block toolbar exactly when the viewport is not
  large, or the preview device type is not \<open>Desktop\<close>, or the fixed toolbar feature is active;
  with a large viewport, the \<open>Desktop\<close> device and the feature off it is not rendered.
\<close>

theorem block_toolbar_displayed:
  "BlockToolbar \<in> set (Header h) \<longleftrightarrow>
     (\<not> isLargeViewport h \<or> deviceType h \<noteq> ''Desktop'' \<or> hasFixedToolbar h)"
  by (simp add: Header_def displayBlockToolbar_def)

theorem block_toolbar_displayed_witness:
  "BlockToolbar \<notin> set (Header \<lparr>isLargeViewport = True, deviceType = ''Desktop'', hasFixedToolbar = False\<rparr>)
   \<and> BlockToolbar \<in> set (Header \<lparr>isLargeViewport = False, deviceType = ''Desktop'', hasFixedToolbar = False\<rparr>)
   \<and> BlockToolbar \<in> set (Header \<lparr>isLargeViewport = True, deviceType = ''Tablet'', hasFixedToolbar = False\<rparr>)
   \<and> BlockToolbar \<in> set (Header \<lparr>isLargeViewport = True, deviceType = ''Desktop'', hasFixedToolbar = True\<rparr>)"
  using block_toolbar_displayed [of "\<lparr>isLargeViewport = True, deviceType = ''Desktop'', hasFixedToolbar = False\<rparr>"]
    block_toolbar_displayed [of "\<lparr>isLargeViewport = False, deviceType = ''Desktop'', hasFixedToolbar = False\<rparr>"]
    block_toolbar_displayed [of "\<lparr>isLargeViewport = True, deviceType = ''Tablet'', hasFixedToolbar = False\<rparr>"]
    block_toolbar_displayed [of "\<lparr>isLargeViewport = True, deviceType = ''Desktop'', hasFixedToolbar = True\<rparr>"]
  by simp

section \<open>The link picker's navigation\<close>

text \<open>
  Claim C8. \<open>onLinkPicked\<close> makes one navigation call, to the screen named by
  \<open>returnScreenName\<close> with the parameters \<open>inputValue = url\<close> and \<open>text = title\<close> of the picked
  link, and \<open>onCancel\<close> makes one call going back; each then hands
  \<open>setIsChildrenScrollable( false )\<close> to \<open>runAfterInteractions\<close> and changes nothing else. Once
  the interactions are over the children are no longer scrollable.
\<close>

theorem link_picker_handlers:
  "onLinkPicked returnScreenName picked st =
     st\<lparr>navigation_calls := navigation_calls st
           @ [Navigate returnScreenName \<lparr>inputValue = url picked, text_param = title picked\<rparr>],
        after_interactions := after_interactions st @ [SetIsChildrenScrollable False]\<rparr>
   \<and> onCancel st =
     st\<lparr>navigation_calls := navigation_calls st @ [GoBack],
        after_interactions := after_interactions st @ [SetIsChildrenScrollable False]\<rparr>
   \<and> \<not> isChildrenScrollable (interactions_over (onLinkPicked returnScreenName picked st))
   \<and> \<not> isChildrenScrollable (interactions_over (onCancel st))"
  by (simp add: onLinkPicked_def onCancel_def navigate_def goBack_def runAfterInteractions_def
      interactions_over_def)

theorem link_picker_handlers_witness:
  "navigation_calls (onLinkPicked ''LinkSettings'' \<lparr>url = ''https://w.org'', title = ''W''\<rparr> example_screen)
     = [Navigate ''LinkSettings'' \<lparr>inputValue = ''https://w.org'', text_param = ''W''\<rparr>]
   \<and> after_interactions (onLinkPicked ''LinkSettings'' \<lparr>url = ''https://w.org'', title = ''W''\<rparr> example_screen)
     = [SetIsChildrenScrollable False]
   \<and> navigation_calls (onCancel example_screen) = [GoBack]
   \<and> after_interactions (onCancel example_screen) = [SetIsChildrenScrollable False]"
  using link_picker_handlers [of "''LinkSettings''" "\<lparr>url = ''https://w.org'', title = ''W''\<rparr>" example_screen]
  by (simp add: example_screen_def)

section \<open>Facts about the modelled helpers\<close>





lemma section_of_merge_patch:
  "section_of (merge_attributes a (section_patch s rows)) s'
     = (if s' = s then rows else section_of a s')"
  by (cases s; cases s') (simp_all add: merge_attributes_def empty_patch_def)



section \<open>Insertion and the rectangular grid\<close>









section \<open>Empty sections and the placeholder\<close>

lemma isEmptyTableSection_spec_iff:
  "isEmptyTableSection_spec rows \<longleftrightarrow> rows = [] \<or> (\<forall>r \<in> set rows. cells r = [])"
  by (simp add: isEmptyTableSection_spec_def list_all_iff)

text \<open>
  Claim C6. A section is empty exactly when it has no rows or each of its rows has no cells
  (the modelled \<open>isEmptyTableSection\<close>), and \<open>TableEdit\<close> renders the placeholder with the
  creation form if and only if head, body and foot are all empty in this sense.
\<close>

theorem placeholder_iff_sections_empty:
  "(isEmptyTableSection_spec rows \<longleftrightarrow> rows = [] \<or> (\<forall>r \<in> set rows. cells r = []))
   \<and> ((\<exists>column_input row_input.
          TableEdit isEmptyTableSection_spec st = Placeholder column_input row_input)
        \<longleftrightarrow> isEmptyTableSection_spec (head (attributes st))
            \<and> isEmptyTableSection_spec (body (attributes st))
            \<and> isEmptyTableSection_spec (foot (attributes st)))"
  by (simp add: isEmptyTableSection_spec_iff TableEdit_def Let_def)

theorem placeholder_iff_sections_empty_witness:
  "isEmptyTableSection_spec [\<lparr>cells = []\<rparr>]
   \<and> \<not> isEmptyTableSection_spec [\<lparr>cells = [data_cell ''Tea'']\<rparr>]
   \<and> (\<exists>column_input row_input.
         TableEdit isEmptyTableSection_spec (state_of cell_less_table None)
           = Placeholder column_input row_input)
   \<and> \<not> (\<exists>column_input row_input.
         TableEdit isEmptyTableSection_spec (state_of one_column_table None)
           = Placeholder column_input row_input)"
  using placeholder_iff_sections_empty [of "[\<lparr>cells = []\<rparr>]" "state_of cell_less_table None"]
    placeholder_iff_sections_empty [of "[\<lparr>cells = [data_cell ''Tea'']\<rparr>]"
      "state_of one_column_table None"]
  by (simp add: state_of_def cell_less_table_def one_column_table_def data_cell_def
      isEmptyTableSection_spec_def)

section \<open>Deleting the last row or column\<close>

lemma isEmpty_map_delete_cell:
  "\<forall>r \<in> set rows. length (cells r) = 1 \<Longrightarrow> isEmptyTableSection_spec (map (delete_cell 0) rows)"
  by (auto simp: isEmptyTableSection_spec_iff delete_cell_def remove_at_def)

lemma section_of_deleteColumn_spec:
  "section_of (merge_attributes a (deleteColumn_spec a sn j)) s
     = map (delete_cell j) (section_of a s)"
  by (cases s) (simp_all add: merge_attributes_def deleteColumn_spec_def empty_patch_def)

text \<open>
  Claim C7. When the selected cell lies in the only row of its section, \<open>onDeleteRow\<close> leaves
  that section empty. When every row of a section has exactly one cell and the selected
  cell is in that column, \<open>onDeleteColumn\<close> leaves that section empty. The deletions are the
  modelled \<open>deleteRow\<close> and \<open>deleteColumn\<close>; empty is the modelled \<open>isEmptyTableSection\<close>.
\<close>

theorem deleting_last_empties_section:
  "(selectedCell st = Some sel \<and> sectionName sel = Some s \<and> rowIndex sel = Some 0
      \<and> length (section_of (attributes st) s) = 1
     \<longrightarrow> isEmptyTableSection_spec (section_of (attributes (onDeleteRow deleteRow_spec st)) s))
   \<and> (selectedCell st = Some sel \<and> columnIndex sel = 0
      \<and> (\<forall>r \<in> set (section_of (attributes st) s). length (cells r) = 1)
     \<longrightarrow> isEmptyTableSection_spec (section_of (attributes (onDeleteColumn deleteColumn_spec st)) s))"
proof (intro conjI impI)
  assume h: "selectedCell st = Some sel \<and> sectionName sel = Some s \<and> rowIndex sel = Some 0
      \<and> length (section_of (attributes st) s) = 1"
  then have "remove_at 0 (section_of (attributes st) s) = []"
    by (simp add: remove_at_def)
  with h show "isEmptyTableSection_spec (section_of (attributes (onDeleteRow deleteRow_spec st)) s)"
    by (simp add: onDeleteRow_def setAttributes_def setSelectedCell_def section_of_merge_patch
        isEmptyTableSection_spec_def del: section_patch.simps)
next
  assume h: "selectedCell st = Some sel \<and> columnIndex sel = 0
      \<and> (\<forall>r \<in> set (section_of (attributes st) s). length (cells r) = 1)"
  then show "isEmptyTableSection_spec
      (section_of (attributes (onDeleteColumn deleteColumn_spec st)) s)"
    by (simp add: onDeleteColumn_def setAttributes_def setSelectedCell_def
        section_of_deleteColumn_spec isEmpty_map_delete_cell)
qed

theorem deleting_last_empties_section_witness:
  "selectedCell (example_state (Some (cell_selection Head 0 1))) = Some (cell_selection Head 0 1)
   \<and> sectionName (cell_selection Head 0 1) = Some Head
   \<and> rowIndex (cell_selection Head 0 1) = Some 0
   \<and> length (section_of (attributes (example_state (Some (cell_selection Head 0 1)))) Head) = 1
   \<and> isEmptyTableSection_spec (section_of (attributes
         (onDeleteRow deleteRow_spec (example_state (Some (cell_selection Head 0 1))))) Head)
   \<and> selectedCell (state_of one_column_table (Some (cell_selection Body 1 0)))
       = Some (cell_selection Body 1 0)
   \<and> columnIndex (cell_selection Body 1 0) = 0
   \<and> map (\<lambda>r. length (cells r))
         (section_of (attributes (state_of one_column_table (Some (cell_selection Body 1 0)))) Body)
       = [1, 1]
   \<and> isEmptyTableSection_spec (section_of (attributes
         (onDeleteColumn deleteColumn_spec (state_of one_column_table (Some (cell_selection Body 1 0))))) Body)"
proof -
  have r: "selectedCell (example_state (Some (cell_selection Head 0 1))) = Some (cell_selection Head 0 1)
     \<and> sectionName (cell_selection Head 0 1) = Some Head
     \<and> rowIndex (cell_selection Head 0 1) = Some 0
     \<and> length (section_of (attributes (example_state (Some (cell_selection Head 0 1)))) Head) = 1"
    by (simp add: example_state_def example_table_def cell_selection_def)
  have c: "selectedCell (state_of one_column_table (Some (cell_selection Body 1 0)))
       = Some (cell_selection Body 1 0)
     \<and> columnIndex (cell_selection Body 1 0) = 0
     \<and> (\<forall>r \<in> set (section_of (attributes (state_of one_column_table (Some (cell_selection Body 1 0)))) Body).
         length (cells r) = 1)"
    by (simp add: state_of_def one_column_table_def cell_selection_def data_cell_def)
  have m: "map (\<lambda>r. length (cells r))
         (section_of (attributes (state_of one_column_table (Some (cell_selection Body 1 0)))) Body)
       = [1, 1]"
    by (simp add: state_of_def one_column_table_def data_cell_def)
  from r c m
    deleting_last_empties_section [of "example_state (Some (cell_selection Head 0 1))"
      "cell_selection Head 0 1" Head]
    deleting_last_empties_section [of "state_of one_column_table (Some (cell_selection Body 1 0))"
      "cell_selection Body 1 0" Body]
  show ?thesis by blast
qed

section \<open>Column alignment\<close>

lemma length_update_cells: "length (update_cells selected f cs) = length cs"
  by (simp add: update_cells_def)

lemma nth_update_cells:
  "j < length cs \<Longrightarrow> update_cells selected f cs ! j = (if selected j then f (cs ! j) else cs ! j)"
  by (simp add: update_cells_def nth_enumerate_eq)

lemma length_update_section: "length (update_section s sel f rows) = length rows"
  by (simp add: update_section_def)

lemma nth_update_section:
  "i < length rows \<Longrightarrow>
     cells (update_section s sel f rows ! i)
       = update_cells (\<lambda>j. isCellSelected s i j sel) f (cells (rows ! i))"
  by (simp add: update_section_def nth_enumerate_eq)

lemma section_of_updateSelectedCell_spec:
  "section_of (merge_attributes a (updateSelectedCell_spec a sel f)) s
     = update_section s sel f (section_of a s)"
  by (cases s) (simp_all add: merge_attributes_def updateSelectedCell_spec_def empty_patch_def)

lemma other_attributes_updateSelectedCell_spec:
  "hasFixedLayout (merge_attributes a (updateSelectedCell_spec a sel f)) = hasFixedLayout a"
  "caption (merge_attributes a (updateSelectedCell_spec a sel f)) = caption a"
  by (simp_all add: merge_attributes_def updateSelectedCell_spec_def empty_patch_def)

text \<open>
  Claim C4. With a cell selected at column index \<open>c\<close>, \<open>onChangeColumnAlignment\<close> turns the
  selection into a column selection and hands it to the modelled \<open>updateSelectedCell\<close>. In
  the attributes \<open>a'\<close> that result from the attributes \<open>a\<close>, every section has the rows it
  had and every row the cells it had; each cell at column index \<open>c\<close>, in every row of every
  section, is the old cell with \<open>align\<close> set to the new value, its other attributes as
  before; every other cell, the layout flag and the caption are unchanged.
\<close>

theorem column_alignment_applies_to_column:
  assumes "selectedCell st = Some sel"
    and "a = attributes st"
    and "a' = attributes (onChangeColumnAlignment updateSelectedCell_spec new_align st)"
  shows "hasFixedLayout a' = hasFixedLayout a \<and> caption a' = caption a
    \<and> (\<forall>s. length (section_of a' s) = length (section_of a s)
        \<and> (\<forall>i < length (section_of a s).
             length (cells (section_of a' s ! i)) = length (cells (section_of a s ! i))
           \<and> (\<forall>j < length (cells (section_of a s ! i)).
                cells (section_of a' s ! i) ! j
                  = (if j = columnIndex sel
                     then (cells (section_of a s ! i) ! j)\<lparr>align := new_align\<rparr>
                     else cells (section_of a s ! i) ! j))))"
proof -
  let ?col = "\<lparr>type = Column, sectionName = None, rowIndex = None, columnIndex = columnIndex sel\<rparr>"
  let ?f = "\<lambda>cellAttributes. cellAttributes\<lparr>align := new_align\<rparr>"
  have a': "a' = merge_attributes a (updateSelectedCell_spec a ?col ?f)"
    using assms by (simp add: onChangeColumnAlignment_def setAttributes_def Let_def)
  have sec: "section_of a' s = update_section s ?col ?f (section_of a s)" for s
    unfolding a' by (rule section_of_updateSelectedCell_spec)
  have sel: "isCellSelected s i j ?col \<longleftrightarrow> j = columnIndex sel" for s i j
    by (simp add: isCellSelected_def)
  show ?thesis
    unfolding sec
    by (simp add: a' other_attributes_updateSelectedCell_spec length_update_section
        nth_update_section length_update_cells nth_update_cells sel)
qed

theorem column_alignment_applies_to_column_witness:
  "selectedCell (example_state (Some (cell_selection Body 1 1))) = Some (cell_selection Body 1 1)
   \<and> attributes (onChangeColumnAlignment updateSelectedCell_spec (Some ''right'')
        (example_state (Some (cell_selection Body 1 1))))
     = \<lparr>hasFixedLayout = False, caption = ''Prices'',
        head = [\<lparr>cells = [header_cell ''Item'', (header_cell ''Price'')\<lparr>align := Some ''right''\<rparr>]\<rparr>],
        body = [\<lparr>cells = [data_cell ''Tea'', (data_cell ''2'')\<lparr>align := Some ''right''\<rparr>]\<rparr>,
                \<lparr>cells = [data_cell ''Cake'', (data_cell ''3'')\<lparr>align := Some ''right''\<rparr>]\<rparr>],
        foot = []\<rparr>
   \<and> cells (section_of (attributes (onChangeColumnAlignment updateSelectedCell_spec (Some ''right'')
        (example_state (Some (cell_selection Body 1 1))))) Head ! 0) ! 1
     = (cells (section_of (attributes (example_state (Some (cell_selection Body 1 1)))) Head ! 0) ! 1)
         \<lparr>align := Some ''right''\<rparr>"
proof -
  let ?st = "example_state (Some (cell_selection Body 1 1))"
  have h: "selectedCell ?st = Some (cell_selection Body 1 1)"
    by (simp add: example_state_def)
  have v: "attributes (onChangeColumnAlignment updateSelectedCell_spec (Some ''right'') ?st)
     = \<lparr>hasFixedLayout = False, caption = ''Prices'',
        head = [\<lparr>cells = [header_cell ''Item'', (header_cell ''Price'')\<lparr>align := Some ''right''\<rparr>]\<rparr>],
        body = [\<lparr>cells = [data_cell ''Tea'', (data_cell ''2'')\<lparr>align := Some ''right''\<rparr>]\<rparr>,
                \<lparr>cells = [data_cell ''Cake'', (data_cell ''3'')\<lparr>align := Some ''right''\<rparr>]\<rparr>],
        foot = []\<rparr>"
    by code_simp
  have len1: "0 < length (section_of (attributes ?st) Head)"
    by (simp add: example_state_def example_table_def)
  have len2: "1 < length (cells (section_of (attributes ?st) Head ! 0))"
    by (simp add: example_state_def example_table_def)
  have col: "columnIndex (cell_selection Body 1 1) = 1"
    by (simp add: cell_selection_def)
  note at_cell = column_alignment_applies_to_column [OF h refl refl, of "Some ''right''",
      THEN conjunct2, THEN conjunct2, THEN spec, of Head, THEN conjunct2,
      THEN spec, of 0, THEN mp, OF len1, THEN conjunct2, THEN spec, of 1, THEN mp, OF len2]
  have "cells (section_of (attributes (onChangeColumnAlignment updateSelectedCell_spec (Some ''right'')
        ?st)) Head ! 0) ! 1
     = (cells (section_of (attributes ?st) Head ! 0) ! 1)\<lparr>align := Some ''right''\<rparr>"
    using at_cell col by simp
  with h v show ?thesis by blast
qed

section \<open>Toggling a section twice\<close>

lemma merge_section_patch_Head:
  "merge_attributes a (section_patch Head rows) = a\<lparr>head := rows\<rparr>"
  by (simp add: merge_attributes_def empty_patch_def)

lemma merge_section_patch_Foot:
  "merge_attributes a (section_patch Foot rows) = a\<lparr>foot := rows\<rparr>"
  by (simp add: merge_attributes_def empty_patch_def)

lemma toggle_once_Head:
  "attributes (onToggleHeaderSection (toggleSection_spec new_row) st)
     = (attributes st)\<lparr>head := (if isEmptyTableSection_spec (head (attributes st))
                                 then insert_at 0 (new_row (attributes st) Head) (head (attributes st))
                                 else [])\<rparr>"
  by (simp add: onToggleHeaderSection_def setAttributes_def toggleSection_spec_def
      merge_section_patch_Head del: section_patch.simps)

lemma toggle_once_Foot:
  "attributes (onToggleFooterSection (toggleSection_spec new_row) st)
     = (attributes st)\<lparr>foot := (if isEmptyTableSection_spec (foot (attributes st))
                                 then insert_at 0 (new_row (attributes st) Foot) (foot (attributes st))
                                 else [])\<rparr>"
  by (simp add: onToggleFooterSection_def setAttributes_def toggleSection_spec_def
      merge_section_patch_Foot del: section_patch.simps)

text \<open>
  Claim C3, as stated: toggling the same section twice gives back the original attributes.
  With the modelled \<open>toggleSection\<close> this fails for a head section that has content: the first
  toggle removes its rows, and whatever row the second toggle adds, the header labels are
  gone. Here the row added is blank and as wide as the first row of the table.
\<close>

theorem double_toggle_counterexample:
  "attributes (onToggleHeaderSection (toggleSection_spec blank_like_first_row)
       (onToggleHeaderSection (toggleSection_spec blank_like_first_row) (example_state None)))
     \<noteq> attributes (example_state None)"
  by (simp add: toggle_once_Head example_state_def example_table_def isEmptyTableSection_spec_def
      insert_at_def blank_like_first_row_def first_row_width_def blank_row_def blank_cell_def
      header_cell_def)

text \<open>
  Claim C3, amended. For the head and for the foot section: when the section has no rows and
  the row that the first toggle adds has at least one cell, toggling the section twice in
  succession gives back the original attributes. This holds for whatever row the modelled
  \<open>toggleSection\<close> adds. (A section with rows is not restored, as the counterexample shows.)
\<close>

theorem double_toggle_restores_absent_section:
  "(head (attributes st) = [] \<and> cells (new_row (attributes st) Head) \<noteq> [] \<longrightarrow>
      attributes (onToggleHeaderSection (toggleSection_spec new_row)
        (onToggleHeaderSection (toggleSection_spec new_row) st)) = attributes st)
   \<and> (foot (attributes st) = [] \<and> cells (new_row (attributes st) Foot) \<noteq> [] \<longrightarrow>
      attributes (onToggleFooterSection (toggleSection_spec new_row)
        (onToggleFooterSection (toggleSection_spec new_row) st)) = attributes st)"
  by (simp add: toggle_once_Head toggle_once_Foot isEmptyTableSection_spec_def insert_at_def)

theorem double_toggle_restores_absent_section_witness:
  "head (attributes (state_of one_column_table None)) = []
   \<and> cells (blank_like_first_row (attributes (state_of one_column_table None)) Head) \<noteq> []
   \<and> attributes (onToggleHeaderSection (toggleSection_spec blank_like_first_row)
        (onToggleHeaderSection (toggleSection_spec blank_like_first_row)
           (state_of one_column_table None)))
       = attributes (state_of one_column_table None)
   \<and> foot (attributes (example_state None)) = []
   \<and> cells (blank_like_first_row (attributes (example_state None)) Foot) \<noteq> []
   \<and> attributes (onToggleFooterSection (toggleSection_spec blank_like_first_row)
        (onToggleFooterSection (toggleSection_spec blank_like_first_row) (example_state None)))
       = attributes (example_state None)
   \<and> head (attributes (onToggleHeaderSection (toggleSection_spec blank_like_first_row)
        (state_of one_column_table None)))
       = [\<lparr>cells = [header_cell []]\<rparr>]"
proof -
  have h1: "head (attributes (state_of one_column_table None)) = []
      \<and> cells (blank_like_first_row (attributes (state_of one_column_table None)) Head) \<noteq> []"
    by (simp add: state_of_def one_column_table_def blank_like_first_row_def first_row_width_def
        blank_row_def)
  have h2: "foot (attributes (example_state None)) = []
      \<and> cells (blank_like_first_row (attributes (example_state None)) Foot) \<noteq> []"
    by (simp add: example_state_def example_table_def blank_like_first_row_def
        first_row_width_def blank_row_def)
  have v: "head (attributes (onToggleHeaderSection (toggleSection_spec blank_like_first_row)
        (state_of one_column_table None)))
       = [\<lparr>cells = [header_cell []]\<rparr>]"
    by code_simp
  from h1 h2 v
    double_toggle_restores_absent_section [of "state_of one_column_table None" blank_like_first_row]
    double_toggle_restores_absent_section [of "example_state None" blank_like_first_row]
  show ?thesis by blast
qed

section \<open>Creating the table\<close>

lemma takeWhile_no_digit: "\<forall>c \<in> set xs. \<not> is_digit c \<Longrightarrow> takeWhile is_digit xs = []"
  by (cases xs) simp_all

lemma parseInt_no_digit:
  assumes "\<forall>c \<in> set s. \<not> is_digit c"
  shows "parseInt s = NaN"
proof -
  define S where "S = dropWhile is_whitespace s"
  define S' where
    "S' = (case S of c # cs \<Rightarrow> if c = 0x2B \<or> c = 0x2D then cs else S | [] \<Rightarrow> S)"
  have "set S \<subseteq> set s"
    unfolding S_def by (auto dest: set_dropWhileD)
  moreover have "set S' \<subseteq> set S"
    unfolding S'_def by (cases S) auto
  ultimately have "\<forall>c \<in> set S'. \<not> is_digit c"
    using assms by blast
  then have "takeWhile is_digit S' = []"
    by (rule takeWhile_no_digit)
  then show ?thesis
    unfolding parseInt_def Let_def S'_def S_def by simp
qed

lemma decimal_value_snoc: "decimal_value (ds @ [d]) = decimal_value ds * 10 + digit_value d"
  by (simp add: decimal_value_def)

lemma decimal_value_nonneg: "\<forall>c \<in> set ds. is_digit c \<Longrightarrow> 0 \<le> decimal_value ds"
proof (induction ds rule: rev_induct)
  case Nil
  then show ?case by (simp add: decimal_value_def)
next
  case (snoc d ds)
  then have "0 \<le> decimal_value ds" and "0 \<le> digit_value d"
    by (simp_all add: is_digit_def digit_value_def)
  then show ?case
    by (simp add: decimal_value_snoc)
qed

lemma digit_not_whitespace: "is_digit c \<Longrightarrow> \<not> is_whitespace c"
  by (auto simp: is_digit_def is_whitespace_def)

lemma digit_not_sign: "is_digit c \<Longrightarrow> c \<noteq> 0x2B \<and> c \<noteq> 0x2D"
  by (auto simp: is_digit_def)

lemma to_number_exact: "0 \<le> n \<Longrightarrow> n \<le> 2 ^ 53 \<Longrightarrow> to_number n = Number n"
proof -
  assume "0 \<le> n" and "n \<le> 2 ^ 53"
  then have "nat \<bar>n\<bar> \<le> 2 ^ 53"
    by (simp add: nat_le_iff)
  then show ?thesis
    by (simp add: to_number_def Let_def)
qed

lemma parseInt_digits:
  assumes "ds \<noteq> []" and "\<forall>c \<in> set ds. is_digit c" and "decimal_value ds \<le> 2 ^ 53"
  shows "parseInt ds = Number (decimal_value ds)"
proof -
  from assms obtain c cs where ds: "ds = c # cs"
    by (cases ds) auto
  with assms(2) have c: "is_digit c" by simp
  have S: "dropWhile is_whitespace ds = ds"
    using c ds by (simp add: digit_not_whitespace)
  have Z: "takeWhile is_digit ds = ds"
    using assms(2) by (simp add: takeWhile_eq_all_conv)
  have exact: "to_number (decimal_value ds) = Number (decimal_value ds)"
    using decimal_value_nonneg [OF assms(2)] assms(3) by (rule to_number_exact)
  from digit_not_sign [OF c] have "c \<noteq> 0x2B" and "c \<noteq> 0x2D" by simp_all
  then have "parseInt ds = to_number (decimal_value ds)"
    unfolding parseInt_def S Let_def
    using Z assms(1) by (simp add: ds)
  with exact show ?thesis by simp
qed

text \<open>
  Claim C5. \<open>onCreateTable\<close> makes one \<open>setAttributes\<close> call, with what \<open>createTable\<close> returns
  for the row count and the column count read from the two inputs by \<open>parseInt\<close> with radix
  10. An input that parses to \<open>NaN\<close> or to zero counts as 2, any other parse result is taken
  as it is; a text without any digit parses to \<open>NaN\<close>, and a run of digits whose base-10
  value is at most 2^53 parses to that value (ten times the value of the digits before the
  last, plus the last digit). No branch signals an error. This holds whatever \<open>createTable\<close>
  computes.
\<close>

theorem create_table_counts:
  "onCreateTable createTable st
     = setAttributes (createTable (parseInt_or_2 (initialRowCount st))
                                  (parseInt_or_2 (initialColumnCount st))) st
   \<and> (parseInt s = NaN \<or> parseInt s = Number 0 \<longrightarrow> parseInt_or_2 s = Number 2)
   \<and> (parseInt s \<noteq> NaN \<and> parseInt s \<noteq> Number 0 \<longrightarrow> parseInt_or_2 s = parseInt s)
   \<and> ((\<forall>c \<in> set s. \<not> is_digit c) \<longrightarrow> parseInt s = NaN)
   \<and> (s \<noteq> [] \<and> (\<forall>c \<in> set s. is_digit c) \<and> decimal_value s \<le> 2 ^ 53
        \<longrightarrow> parseInt s = Number (decimal_value s))
   \<and> decimal_value (s @ [d]) = decimal_value s * 10 + digit_value d"
proof (intro conjI impI)
  show "onCreateTable createTable st
     = setAttributes (createTable (parseInt_or_2 (initialRowCount st))
                                  (parseInt_or_2 (initialColumnCount st))) st"
    by (simp add: onCreateTable_def)
next
  assume "parseInt s = NaN \<or> parseInt s = Number 0"
  then show "parseInt_or_2 s = Number 2"
    by (auto simp: parseInt_or_2_def)
next
  assume "parseInt s \<noteq> NaN \<and> parseInt s \<noteq> Number 0"
  then show "parseInt_or_2 s = parseInt s"
    by (simp add: parseInt_or_2_def)
next
  assume "\<forall>c \<in> set s. \<not> is_digit c"
  then show "parseInt s = NaN"
    by (rule parseInt_no_digit)
next
  assume "s \<noteq> [] \<and> (\<forall>c \<in> set s. is_digit c) \<and> decimal_value s \<le> 2 ^ 53"
  then show "parseInt s = Number (decimal_value s)"
    by (simp add: parseInt_digits)
next
  show "decimal_value (s @ [d]) = decimal_value s * 10 + digit_value d"
    by (rule decimal_value_snoc)
qed

theorem create_table_counts_witness:
  "\<not> is_digit 0x61 \<and> \<not> is_digit 0x62 \<and> \<not> is_digit 0x63
   \<and> parseInt (utf16 ''abc'') = NaN
   \<and> parseInt_or_2 (utf16 ''abc'') = Number 2
   \<and> parseInt (utf16 ''0'') = Number 0
   \<and> parseInt_or_2 (utf16 ''0'') = Number 2
   \<and> parseInt (utf16 '' 12px'') = Number 12
   \<and> parseInt_or_2 (utf16 '' 12px'') = Number 12
   \<and> parseInt [0xA0, 0x35] = Number 5
   \<and> parseInt_or_2 [0xA0, 0x35] = Number 5
   \<and> parseInt (utf16 ''9007199254740993'') = Number 9007199254740992
   \<and> is_digit 0x33
   \<and> decimal_value (utf16 ''3'') \<le> 2 ^ 53
   \<and> parseInt (utf16 ''3'') = Number (decimal_value (utf16 ''3''))
   \<and> setAttributes_calls (onCreateTable example_createTable
        ((state_of cell_less_table None)
           \<lparr>initialRowCount := utf16 ''abc'', initialColumnCount := utf16 ''3''\<rparr>))
       = [example_createTable (Number 2) (Number 3)]"
proof -
  note parse_defs = parseInt_def utf16_def is_whitespace_def is_digit_def decimal_value_def
    digit_value_def to_number_def Let_def
  have abc: "utf16 ''abc'' = [0x61, 0x62, 0x63]"
    by (simp add: utf16_def)
  have d: "\<not> is_digit 0x61 \<and> \<not> is_digit 0x62 \<and> \<not> is_digit 0x63"
    by (simp add: is_digit_def)
  then have d': "\<forall>c \<in> set (utf16 ''abc''). \<not> is_digit c"
    by (simp add: abc)
  have z: "parseInt (utf16 ''0'') = Number 0"
    by (simp add: parse_defs)
  have p: "parseInt (utf16 '' 12px'') = Number 12"
    by (simp add: parse_defs)
  have n: "parseInt [0xA0, 0x35] = Number 5"
    by (simp add: parse_defs)
  have big: "parseInt (utf16 ''9007199254740993'') = Number 9007199254740992"
    by (simp add: parse_defs)
  have g: "is_digit 0x33"
    by (simp add: is_digit_def)
  have t: "utf16 ''3'' = [0x33]"
    by (simp add: utf16_def)
  have g': "utf16 ''3'' \<noteq> [] \<and> (\<forall>c \<in> set (utf16 ''3''). is_digit c)
      \<and> decimal_value (utf16 ''3'') \<le> 2 ^ 53"
    using g by (simp add: t decimal_value_def digit_value_def)
  have t3: "parseInt (utf16 ''3'') = Number 3"
    by (simp add: parse_defs)
  note at_abc = create_table_counts [of example_createTable
      "(state_of cell_less_table None)
         \<lparr>initialRowCount := utf16 ''abc'', initialColumnCount := utf16 ''3''\<rparr>"
      "utf16 ''abc''"]
  note at_zero = create_table_counts [of example_createTable "state_of cell_less_table None"
      "utf16 ''0''"]
  note at_twelve = create_table_counts [of example_createTable "state_of cell_less_table None"
      "utf16 '' 12px''"]
  note at_nbsp = create_table_counts [of example_createTable "state_of cell_less_table None"
      "[0xA0, 0x35]"]
  note at_three = create_table_counts [of example_createTable "state_of cell_less_table None"
      "utf16 ''3''"]
  from at_abc d' have a1: "parseInt (utf16 ''abc'') = NaN" by blast
  with at_abc have a2: "parseInt_or_2 (utf16 ''abc'') = Number 2" by blast
  from at_zero z have z2: "parseInt_or_2 (utf16 ''0'') = Number 2" by blast
  from at_twelve p have p2: "parseInt_or_2 (utf16 '' 12px'') = Number 12" by simp
  from at_nbsp n have n2: "parseInt_or_2 [0xA0, 0x35] = Number 5" by simp
  from at_three g' have t1: "parseInt (utf16 ''3'') = Number (decimal_value (utf16 ''3''))"
    by blast
  from at_three t3 have t2: "parseInt_or_2 (utf16 ''3'') = Number 3" by simp
  from at_abc a2 t2 have c: "setAttributes_calls (onCreateTable example_createTable
        ((state_of cell_less_table None)
           \<lparr>initialRowCount := utf16 ''abc'', initialColumnCount := utf16 ''3''\<rparr>))
       = [example_createTable (Number 2) (Number 3)]"
    by (simp add: setAttributes_def state_of_def)
  from d a1 a2 z z2 p p2 n n2 big g g' t1 c show ?thesis by blast
qed

end
